theory Spec2Isabelle
  imports Main
begin

section \<open>Settings Provider: \<^verbatim>\<open>app/config.py\<close>\<close>

text \<open>
  The module under verification:
  \<^verbatim>\<open>
  from pydantic_settings import BaseSettings

  class Settings(BaseSettings):
      """Application settings"""
      app_name: str = "My FastAPI App"
      debug: bool = False

      class Config:
          env_file = ".env"

  settings = Settings()
  \<close>
  The class body is all this repository writes: two typed fields with their defaults and
  one configuration attribute. Construction itself is inherited from the settings library.
\<close>

subsection \<open>The declaration\<close>

record Settings =
  app_name :: string
  debug :: bool

text \<open>The declared fields, as keys of the dictionaries the sources produce.\<close>

datatype field = App_name | Debug

definition default_app_name :: string where
  "default_app_name = ''My FastAPI App''"

definition default_debug :: bool where
  "default_debug = False"

record Config =
  env_file :: string

definition Settings_Config :: Config where
  "Settings_Config = \<lparr>env_file = ''.env''\<rparr>"

subsection \<open>The environment\<close>

text \<open>
  What construction reads from outside: the process environment and the file system. Both
  are seen through the library's mapping of variable names to fields (\<open>APP_NAME\<close>,
  \<open>DEBUG\<close>, case-insensitively), so a variable is identified with the field it is mapped
  to. A file is its parsed key/value content; a path with no entry is a file that is absent.
\<close>

record environ =
  env_vars :: "field \<rightharpoonup> string"
  env_files :: "string \<rightharpoonup> (field \<rightharpoonup> string)"

text \<open>
  A value as a source hands it over: text from the environment or from a file, text or a
  boolean from a keyword argument of the constructor.
\<close>

datatype raw = PyStr string | PyBool bool

subsection \<open>Construction\<close>

text \<open>
  Modelled from the spec: the constructor of \<open>BaseSettings\<close> (the external settings
  library, not part of the sources). Section 4.2: the record is populated, in order of
  precedence, by explicit overrides, environment variables, an optional environment file,
  then hard-coded defaults, and construction fails if a field's environment-sourced value
  cannot be coerced to its declared type. The three sources are dictionaries, merged so
  that a source of higher precedence overwrites one of lower precedence; the merged
  dictionary is then validated field by field against the declared types.
\<close>

definition env_source :: "environ \<Rightarrow> field \<rightharpoonup> raw" where
  "env_source e = map_option PyStr \<circ> env_vars e"

definition dotenv_source :: "Config \<Rightarrow> environ \<Rightarrow> field \<rightharpoonup> raw" where
  "dotenv_source c e =
     (case env_files e (env_file c) of
        None \<Rightarrow> Map.empty
      | Some kv \<Rightarrow> map_option PyStr \<circ> kv)"

definition build_values :: "Config \<Rightarrow> (field \<rightharpoonup> raw) \<Rightarrow> environ \<Rightarrow> field \<rightharpoonup> raw" where
  "build_values c kwargs e = dotenv_source c e ++ env_source e ++ kwargs"

text \<open>
  Modelled from the spec: coercion to the declared type. A field declared \<open>str\<close> takes
  text as it is. A field declared \<open>bool\<close> takes a boolean as it is and text through the
  library's table of boolean tokens, which the spec leaves to the library ("a truthy
  string", "a non-boolean token"): the table is the parameter \<open>to_bool\<close>, \<open>None\<close> for a
  token that is not boolean.
\<close>

fun validate_str :: "raw \<Rightarrow> string option" where
  "validate_str (PyStr s) = Some s"
| "validate_str (PyBool b) = None"

fun validate_bool :: "(string \<Rightarrow> bool option) \<Rightarrow> raw \<Rightarrow> bool option" where
  "validate_bool to_bool (PyBool b) = Some b"
| "validate_bool to_bool (PyStr s) = to_bool s"

text \<open>The exception of a failed construction names the fields whose values were refused.\<close>

datatype error = ValidationError "field list"

definition field_app_name :: "(field \<rightharpoonup> raw) \<Rightarrow> field list + string" where
  "field_app_name vals =
     (case vals App_name of
        None \<Rightarrow> Inr default_app_name
      | Some v \<Rightarrow> (case validate_str v of None \<Rightarrow> Inl [App_name] | Some s \<Rightarrow> Inr s))"

definition field_debug :: "(string \<Rightarrow> bool option) \<Rightarrow> (field \<rightharpoonup> raw) \<Rightarrow> field list + bool" where
  "field_debug to_bool vals =
     (case vals Debug of
        None \<Rightarrow> Inr default_debug
      | Some v \<Rightarrow> (case validate_bool to_bool v of None \<Rightarrow> Inl [Debug] | Some b \<Rightarrow> Inr b))"

definition Settings_init ::
  "(string \<Rightarrow> bool option) \<Rightarrow> (field \<rightharpoonup> raw) \<Rightarrow> environ \<Rightarrow> error + Settings" where
  "Settings_init to_bool kwargs e =
     (let vals = build_values Settings_Config kwargs e in
      case (field_app_name vals, field_debug to_bool vals) of
        (Inr n, Inr d) \<Rightarrow> Inr \<lparr>app_name = n, debug = d\<rparr>
      | (Inl es, Inr d) \<Rightarrow> Inl (ValidationError es)
      | (Inr n, Inl es) \<Rightarrow> Inl (ValidationError es)
      | (Inl es, Inl es') \<Rightarrow> Inl (ValidationError (es @ es')))"

subsection \<open>The module and its singleton\<close>

text \<open>
  Loading the module runs \<open>settings = Settings()\<close>: one construction, with no keyword
  argument. An exception there leaves the module unloaded, and the import that asked for
  it fails.
\<close>

record config_module =
  settings :: Settings

definition config_load :: "(string \<Rightarrow> bool option) \<Rightarrow> environ \<Rightarrow> error + config_module" where
  "config_load to_bool e =
     (case Settings_init to_bool Map.empty e of
        Inl err \<Rightarrow> Inl err
      | Inr s \<Rightarrow> Inr \<lparr>settings = s\<rparr>)"

text \<open>
  A table of boolean tokens for the examples: \<open>true\<close> and \<open>false\<close>, nothing else.
\<close>

definition example_to_bool :: "string \<Rightarrow> bool option" where
  "example_to_bool s =
     (if s = ''true'' then Some True else if s = ''false'' then Some False else None)"

subsection \<open>The spec's wording of the sources\<close>

text \<open>
  Two definitions that follow the words of the spec, to compare the construction with.
  The first is the order of precedence of section 4.2, read source by source: an explicit
  override, else the environment variable, else the entry of the environment file, else
  nothing (and then the default applies). The second is the "environment-sourced value" of
  a field: the same order without the overrides, as the module builds its singleton.
\<close>

definition precedence_lookup :: "(field \<rightharpoonup> raw) \<Rightarrow> environ \<Rightarrow> field \<rightharpoonup> raw" where
  "precedence_lookup kwargs e f =
     (case kwargs f of
        Some v \<Rightarrow> Some v
      | None \<Rightarrow>
          (case env_vars e f of
             Some s \<Rightarrow> Some (PyStr s)
           | None \<Rightarrow>
               (case env_files e (env_file Settings_Config) of
                  None \<Rightarrow> None
                | Some kv \<Rightarrow> map_option PyStr (kv f))))"

definition env_sourced :: "environ \<Rightarrow> field \<rightharpoonup> string" where
  "env_sourced e f =
     (case env_vars e f of
        Some s \<Rightarrow> Some s
      | None \<Rightarrow>
          (case env_files e (env_file Settings_Config) of
             None \<Rightarrow> None
           | Some kv \<Rightarrow> kv f))"

text \<open>
  Whether text can be coerced to the declared type of a field: \<open>app_name: str\<close>,
  \<open>debug: bool\<close>.
\<close>

fun coercible :: "(string \<Rightarrow> bool option) \<Rightarrow> field \<Rightarrow> string \<Rightarrow> bool" where
  "coercible to_bool App_name s = (validate_str (PyStr s) \<noteq> None)"
| "coercible to_bool Debug s = (validate_bool to_bool (PyStr s) \<noteq> None)"


subsection \<open>What an importing module can do with the singleton\<close>

text \<open>
  \<open>Config\<close> sets \<open>env_file\<close> and nothing else: the class does not ask for frozen
  instances, so the singleton is an object like any other, whose attributes an importing
  module reads (\<open>settings.debug\<close>) and assigns (\<open>settings.debug = True\<close>). Importing
  the module again gives the same object and constructs nothing.
\<close>

datatype consumer_op = Read_attr field | Assign_app_name string | Assign_debug bool

fun consumer_step :: "consumer_op \<Rightarrow> config_module \<Rightarrow> config_module" where
  "consumer_step (Read_attr f) m = m"
| "consumer_step (Assign_app_name v) m = m\<lparr>settings := (settings m)\<lparr>app_name := v\<rparr>\<rparr>"
| "consumer_step (Assign_debug v) m = m\<lparr>settings := (settings m)\<lparr>debug := v\<rparr>\<rparr>"

section \<open>Application Bootstrap: \<^verbatim>\<open>app/main.py\<close>\<close>

text \<open>
  \<^verbatim>\<open>
  from fastapi import FastAPI
  from app.routes import health

  app = FastAPI(
      title="My FastAPI App",
      description="Created with DevTools Framework",
      version="1.0.0"
  )

  # Include routers
  app.include_router(health.router)

  @app.get("/")
  async def root():
      """Root endpoint"""
      return {
          "message": "Welcome to FastAPI",
          "docs": "/docs",
          "health": "/health"
      }
  \<close>
\<close>

subsection \<open>Requests, responses and routes\<close>

datatype json =
    JNull
  | JBool bool
  | JNumber int
  | JString string
  | JArray "json list"
  | JObject "(string \<times> json) list"

record request =
  req_method :: string
  req_path :: string
  req_query :: "(string \<times> string) list"
  req_headers :: "(string \<times> string) list"
  req_body :: string

record response =
  status_code :: nat
  body :: json

text \<open>
  A route names its handler: \<open>Root\<close> is the function \<open>root\<close> of this module, an
  \<open>External\<close> one belongs to a collaborator (the health router, the framework's own
  documentation pages) and is known by its name only.
\<close>

datatype endpoint = Root | External string

record route =
  route_method :: string
  route_path :: string
  route_status :: nat
  route_endpoint :: endpoint

record FastAPI =
  title :: string
  description :: string
  version :: string
  routes :: "route list"

text \<open>The process: the application object and the loaded configuration module.\<close>

record process =
  main_app :: FastAPI
  config :: config_module

subsection \<open>The bootstrap\<close>

text \<open>
  The constructor stores the metadata and starts the route table with the framework's own
  routes (the documentation pages), which are a parameter here. \<open>include_router\<close>
  appends the routes of a router, the decorator \<open>@app.get(path)\<close> appends one route for
  the method GET; it is used without a status code, which leaves the response at 200.
\<close>

definition FastAPI_init :: "string \<Rightarrow> string \<Rightarrow> string \<Rightarrow> route list \<Rightarrow> FastAPI" where
  "FastAPI_init t d v framework_routes =
     \<lparr>title = t, description = d, version = v, routes = framework_routes\<rparr>"

definition include_router :: "route list \<Rightarrow> FastAPI \<Rightarrow> FastAPI" where
  "include_router router a = a\<lparr>routes := routes a @ router\<rparr>"

definition app_get :: "string \<Rightarrow> endpoint \<Rightarrow> FastAPI \<Rightarrow> FastAPI" where
  "app_get path f a =
     a\<lparr>routes := routes a @
        [\<lparr>route_method = ''GET'', route_path = path, route_status = 200, route_endpoint = f\<rparr>]\<rparr>"

text \<open>
  The module body, top to bottom. The router of \<open>app.routes.health\<close> is not among the
  sources: its routes are the parameter \<open>health_router\<close>.
\<close>

definition app :: "route list \<Rightarrow> route list \<Rightarrow> FastAPI" where
  "app framework_routes health_router =
     app_get ''/'' Root
       (include_router health_router
          (FastAPI_init ''My FastAPI App'' ''Created with DevTools Framework'' ''1.0.0''
             framework_routes))"

definition root :: json where
  "root = JObject
     [(''message'', JString ''Welcome to FastAPI''),
      (''docs'', JString ''/docs''),
      (''health'', JString ''/health'')]"

subsection \<open>Serving a request\<close>

text \<open>
  The framework hands a request to the first route of the table that matches its method
  and path, calls the route's handler and wraps what it returns in a response with the
  route's status code. \<open>root\<close> takes no argument and touches nothing; what an external
  handler returns and does to the process is the parameter \<open>ext\<close>. A request that no
  route matches is left to the framework (\<open>None\<close>). Paths are compared as they are
  written: the one route of this module has the literal path \<open>/\<close>, and path parameters
  are not modelled.
\<close>

definition route_matches :: "request \<Rightarrow> route \<Rightarrow> bool" where
  "route_matches rq r = (route_method r = req_method rq \<and> route_path r = req_path rq)"

fun call_endpoint ::
  "(string \<Rightarrow> request \<Rightarrow> process \<Rightarrow> json \<times> process) \<Rightarrow> endpoint \<Rightarrow> request \<Rightarrow> process
     \<Rightarrow> json \<times> process" where
  "call_endpoint ext Root rq p = (root, p)"
| "call_endpoint ext (External name) rq p = ext name rq p"

definition handle_request ::
  "(string \<Rightarrow> request \<Rightarrow> process \<Rightarrow> json \<times> process) \<Rightarrow> request \<Rightarrow> process
     \<Rightarrow> (response \<times> process) option" where
  "handle_request ext rq p =
     (case find (route_matches rq) (routes (main_app p)) of
        None \<Rightarrow> None
      | Some r \<Rightarrow>
          (case call_endpoint ext (route_endpoint r) rq p of
             (b, p') \<Rightarrow> Some (\<lparr>status_code = route_status r, body = b\<rparr>, p')))"

text \<open>Whether a list of routes has one for a method and a path.\<close>

definition serves :: "string \<Rightarrow> string \<Rightarrow> route list \<Rightarrow> bool" where
  "serves m path rs = list_ex (\<lambda>r. route_method r = m \<and> route_path r = path) rs"

text \<open>Examples: a health router with one route, a request, an external handler.\<close>

definition example_health_router :: "route list" where
  "example_health_router =
     [\<lparr>route_method = ''GET'', route_path = ''/health'', route_status = 200,
       route_endpoint = External ''health_check''\<rparr>]"

definition example_framework_routes :: "route list" where
  "example_framework_routes =
     [\<lparr>route_method = ''GET'', route_path = ''/docs'', route_status = 200,
       route_endpoint = External ''swagger_ui_html''\<rparr>]"

definition example_request :: request where
  "example_request =
     \<lparr>req_method = ''GET'', req_path = ''/'', req_query = [(''q'', ''1'')],
      req_headers = [(''accept'', ''text/html'')], req_body = ''x=1''\<rparr>"

definition example_ext :: "string \<Rightarrow> request \<Rightarrow> process \<Rightarrow> json \<times> process" where
  "example_ext name rq p = (JObject [(''status'', JString ''healthy'')], p)"

section \<open>Properties of the Settings Provider\<close>

lemma build_values_no_kwargs:
  "build_values Settings_Config Map.empty e f =
     (case env_vars e f of
        Some s \<Rightarrow> Some (PyStr s)
      | None \<Rightarrow>
          (case env_files e ''.env'' of
             None \<Rightarrow> None
           | Some kv \<Rightarrow> map_option PyStr (kv f)))"
  by (simp add: build_values_def env_source_def dotenv_source_def Settings_Config_def
      map_add_def split: option.splits)

text \<open>
  C2. With no environment file present and no environment variable set for either field,
  construction succeeds and yields the record with \<open>app_name = "My FastAPI App"\<close> and
  \<open>debug = False\<close>; so does the load of the module, whose singleton is that record.
\<close>

theorem Settings_defaults:
  assumes "env_vars e App_name = None" and "env_vars e Debug = None"
    and "env_files e (env_file Settings_Config) = None"
  shows "Settings_init to_bool Map.empty e =
           Inr \<lparr>app_name = ''My FastAPI App'', debug = False\<rparr>
       \<and> config_load to_bool e =
           Inr \<lparr>settings = \<lparr>app_name = ''My FastAPI App'', debug = False\<rparr>\<rparr>"
proof -
  from assms(3) have "env_files e ''.env'' = None"
    by (simp add: Settings_Config_def)
  with assms(1,2) have "build_values Settings_Config Map.empty e App_name = None"
    and "build_values Settings_Config Map.empty e Debug = None"
    by (simp_all add: build_values_no_kwargs)
  then show ?thesis
    by (simp add: config_load_def Settings_init_def Let_def field_app_name_def
        field_debug_def default_app_name_def default_debug_def)
qed

theorem Settings_defaults_witness:
  "Settings_init example_to_bool Map.empty \<lparr>env_vars = Map.empty, env_files = Map.empty\<rparr> =
     Inr \<lparr>app_name = ''My FastAPI App'', debug = False\<rparr>
   \<and> config_load example_to_bool \<lparr>env_vars = Map.empty, env_files = Map.empty\<rparr> =
     Inr \<lparr>settings = \<lparr>app_name = ''My FastAPI App'', debug = False\<rparr>\<rparr>"
  using Settings_defaults [of "\<lparr>env_vars = Map.empty, env_files = Map.empty\<rparr>" example_to_bool]
  by simp

subsection \<open>The merged dictionary\<close>

lemma build_values_precedence:
  "build_values Settings_Config kwargs e f = precedence_lookup kwargs e f"
  by (simp add: build_values_def precedence_lookup_def env_source_def dotenv_source_def
      map_add_def split: option.splits)

lemma build_values_env_sourced:
  "build_values Settings_Config Map.empty e f = map_option PyStr (env_sourced e f)"
  by (simp add: build_values_precedence precedence_lookup_def env_sourced_def
      split: option.splits)

lemma field_app_name_env:
  "field_app_name (build_values Settings_Config Map.empty e) =
     Inr (case env_sourced e App_name of None \<Rightarrow> default_app_name | Some s \<Rightarrow> s)"
  by (simp add: field_app_name_def build_values_env_sourced split: option.splits)

lemma field_debug_env:
  "field_debug to_bool (build_values Settings_Config Map.empty e) =
     (case env_sourced e Debug of
        None \<Rightarrow> Inr default_debug
      | Some s \<Rightarrow> (case to_bool s of None \<Rightarrow> Inl [Debug] | Some b \<Rightarrow> Inr b))"
  by (simp add: field_debug_def build_values_env_sourced split: option.splits)

lemma Settings_init_env:
  "Settings_init to_bool Map.empty e =
     (case field_debug to_bool (build_values Settings_Config Map.empty e) of
        Inl es \<Rightarrow> Inl (ValidationError es)
      | Inr d \<Rightarrow>
          Inr \<lparr>app_name = (case env_sourced e App_name of None \<Rightarrow> default_app_name | Some s \<Rightarrow> s),
               debug = d\<rparr>)"
  by (simp add: Settings_init_def Let_def field_app_name_env split: sum.splits)

text \<open>
  In this model the load of the module fails exactly when the value that the environment
  supplies for some field is refused by the declared type of the field; since text is
  always accepted for \<open>app_name\<close>, that field is \<open>debug\<close>.
\<close>

lemma config_load_fails_iff:
  "(\<exists>err. config_load to_bool e = Inl err) =
     (\<exists>f s. env_sourced e f = Some s \<and> \<not> coercible to_bool f s)"
proof -
  have app: "coercible to_bool App_name s" for s
    by simp
  have "(\<exists>err. config_load to_bool e = Inl err) =
          (\<exists>s. env_sourced e Debug = Some s \<and> to_bool s = None)"
    by (auto simp add: config_load_def Settings_init_env field_debug_env
        split: sum.splits option.splits)
  also have "\<dots> = (\<exists>s. env_sourced e Debug = Some s \<and> \<not> coercible to_bool Debug s)"
    by simp
  also have "\<dots> = (\<exists>f s. env_sourced e f = Some s \<and> \<not> coercible to_bool f s)"
  proof
    assume "\<exists>s. env_sourced e Debug = Some s \<and> \<not> coercible to_bool Debug s"
    then show "\<exists>f s. env_sourced e f = Some s \<and> \<not> coercible to_bool f s"
      by blast
  next
    assume "\<exists>f s. env_sourced e f = Some s \<and> \<not> coercible to_bool f s"
    then obtain f s where fs: "env_sourced e f = Some s" "\<not> coercible to_bool f s"
      by blast
    with app have "f = Debug"
      by (cases f) auto
    with fs show "\<exists>s. env_sourced e Debug = Some s \<and> \<not> coercible to_bool Debug s"
      by blast
  qed
  finally show ?thesis .
qed

subsection \<open>Overriding from the environment\<close>

text \<open>
  C4. If the environment variable mapped to \<open>debug\<close> holds a truthy boolean token (one
  that the library's table reads as \<open>True\<close>), the module loads and the singleton has
  \<open>debug = True\<close>, whatever the environment file says; \<open>app_name\<close> is the
  environment's value for it, or the default.
\<close>

theorem debug_truthy:
  assumes "env_vars e Debug = Some tok" and "to_bool tok = Some True"
  shows "config_load to_bool e =
     Inr \<lparr>settings =
       \<lparr>app_name = (case env_sourced e App_name of None \<Rightarrow> default_app_name | Some s \<Rightarrow> s),
        debug = True\<rparr>\<rparr>"
proof -
  from assms(1) have "env_sourced e Debug = Some tok"
    by (simp add: env_sourced_def)
  with assms(2) have "field_debug to_bool (build_values Settings_Config Map.empty e) = Inr True"
    by (simp add: field_debug_env)
  then show ?thesis
    by (simp add: config_load_def Settings_init_env)
qed

theorem debug_truthy_witness:
  "config_load example_to_bool
     \<lparr>env_vars = [Debug \<mapsto> ''true''], env_files = Map.empty\<rparr> =
   Inr \<lparr>settings = \<lparr>app_name = ''My FastAPI App'', debug = True\<rparr>\<rparr>"
  using debug_truthy [of "\<lparr>env_vars = [Debug \<mapsto> ''true''], env_files = Map.empty\<rparr>"
      "''true''" example_to_bool]
  by (simp add: example_to_bool_def env_sourced_def default_app_name_def)



subsection \<open>Determinism and precedence\<close>








subsection \<open>The singleton after the load\<close>

text \<open>
  C7, as stated, fails: an importing module that assigns \<open>settings.debug = True\<close>
  changes the singleton.
\<close>

theorem settings_assignment_counterexample:
  "settings (consumer_step (Assign_debug True)
      \<lparr>settings = \<lparr>app_name = ''My FastAPI App'', debug = False\<rparr>\<rparr>) \<noteq>
   settings \<lparr>settings = \<lparr>app_name = ''My FastAPI App'', debug = False\<rparr>\<rparr>"
  by simp

text \<open>
  C7, amended. Reading an attribute leaves the singleton as it is; an assignment by an
  importing module replaces the assigned field, and that field only.
\<close>

theorem consumer_step_effect:
  "consumer_step (Read_attr f) m = m
 \<and> settings (consumer_step (Assign_app_name v) m) =
     \<lparr>app_name = v, debug = debug (settings m)\<rparr>
 \<and> settings (consumer_step (Assign_debug b) m) =
     \<lparr>app_name = app_name (settings m), debug = b\<rparr>"
  by simp

theorem consumer_step_effect_witness:
  "consumer_step (Read_attr Debug) \<lparr>settings = \<lparr>app_name = ''My FastAPI App'', debug = False\<rparr>\<rparr> =
     \<lparr>settings = \<lparr>app_name = ''My FastAPI App'', debug = False\<rparr>\<rparr>
 \<and> settings (consumer_step (Assign_app_name ''Shop'')
       \<lparr>settings = \<lparr>app_name = ''My FastAPI App'', debug = False\<rparr>\<rparr>) =
     \<lparr>app_name = ''Shop'', debug = False\<rparr>
 \<and> settings (consumer_step (Assign_debug True)
       \<lparr>settings = \<lparr>app_name = ''My FastAPI App'', debug = False\<rparr>\<rparr>) =
     \<lparr>app_name = ''My FastAPI App'', debug = True\<rparr>"
  using consumer_step_effect [of Debug "\<lparr>settings = \<lparr>app_name = ''My FastAPI App'', debug = False\<rparr>\<rparr>"
      "''Shop''" True]
  by simp

section \<open>Properties of the Application Bootstrap\<close>

lemma find_append_None:
  "find P xs = None \<Longrightarrow> find P (xs @ ys) = find P ys"
  by (induction xs) (auto split: if_splits)

lemma not_serves_find:
  "\<not> serves (req_method rq) (req_path rq) rs \<Longrightarrow> find (route_matches rq) rs = None"
  by (simp add: serves_def list_ex_iff find_None_iff route_matches_def)

lemma routes_app:
  "routes (app framework_routes health_router) =
     (framework_routes @ health_router) @
       [\<lparr>route_method = ''GET'', route_path = ''/'', route_status = 200, route_endpoint = Root\<rparr>]"
  by (simp add: app_def app_get_def include_router_def FastAPI_init_def)

lemma handle_request_root:
  assumes "req_method rq = ''GET''" and "req_path rq = ''/''"
    and "\<not> serves ''GET'' ''/'' (framework_routes @ health_router)"
    and "main_app p = app framework_routes health_router"
  shows "handle_request ext rq p = Some (\<lparr>status_code = 200, body = root\<rparr>, p)"
proof -
  from assms(1-3) have "find (route_matches rq) (framework_routes @ health_router) = None"
    by (simp add: not_serves_find)
  then have "find (route_matches rq) (routes (main_app p)) =
      Some \<lparr>route_method = ''GET'', route_path = ''/'', route_status = 200, route_endpoint = Root\<rparr>"
    using assms(1,2,4) by (simp only: routes_app find_append_None) (simp add: route_matches_def)
  then show ?thesis
    by (simp add: handle_request_def)
qed

lemma example_not_served:
  "\<not> serves ''GET'' ''/'' (example_framework_routes @ example_health_router)"
  by (simp add: serves_def example_framework_routes_def example_health_router_def)

text \<open>
  C1. A request with method GET and path \<open>/\<close>, whatever its query, headers and body,
  is answered with status 200 and the body
  \<open>{"message": "Welcome to FastAPI", "docs": "/docs", "health": "/health"}\<close>, for every
  value \<open>s\<close> of the settings singleton. The routes registered before \<open>root\<close> (the
  framework's own and the health router's) are assumed not to serve GET \<open>/\<close>.
\<close>

theorem root_response:
  assumes "req_method rq = ''GET''" and "req_path rq = ''/''"
    and "\<not> serves ''GET'' ''/'' (framework_routes @ health_router)"
  shows "map_option fst
           (handle_request ext rq
              \<lparr>main_app = app framework_routes health_router, config = \<lparr>settings = s\<rparr>\<rparr>) =
         Some \<lparr>status_code = 200,
               body = JObject
                 [(''message'', JString ''Welcome to FastAPI''),
                  (''docs'', JString ''/docs''),
                  (''health'', JString ''/health'')]\<rparr>"
  using handle_request_root [OF assms, of "\<lparr>main_app = app framework_routes health_router, config = \<lparr>settings = s\<rparr>\<rparr>" ext]
  by (simp add: root_def)

theorem root_response_witness:
  "map_option fst
     (handle_request example_ext example_request
        \<lparr>main_app = app example_framework_routes example_health_router,
         config = \<lparr>settings = \<lparr>app_name = ''Shop'', debug = True\<rparr>\<rparr>\<rparr>) =
   Some \<lparr>status_code = 200,
         body = JObject
           [(''message'', JString ''Welcome to FastAPI''),
            (''docs'', JString ''/docs''),
            (''health'', JString ''/health'')]\<rparr>"
  by (rule root_response) (simp_all add: example_request_def example_not_served)

text \<open>
  C8. Serving GET \<open>/\<close> leaves the process as it was: the application object with its
  route table and the configuration module with its singleton are returned unchanged. The
  handler takes no input: its result is the same for any two requests and any two
  behaviours of the external handlers.
\<close>

theorem root_no_side_effects:
  assumes "req_method rq = ''GET''" and "req_path rq = ''/''"
    and "\<not> serves ''GET'' ''/'' (framework_routes @ health_router)"
    and "main_app p = app framework_routes health_router"
  shows "map_option snd (handle_request ext rq p) = Some p
       \<and> call_endpoint ext Root rq p = call_endpoint ext' Root rq' p"
  using handle_request_root [OF assms, of ext]
  by simp

theorem root_no_side_effects_witness:
  "map_option snd
     (handle_request example_ext example_request
        \<lparr>main_app = app example_framework_routes example_health_router,
         config = \<lparr>settings = \<lparr>app_name = ''Shop'', debug = True\<rparr>\<rparr>\<rparr>) =
   Some \<lparr>main_app = app example_framework_routes example_health_router,
         config = \<lparr>settings = \<lparr>app_name = ''Shop'', debug = True\<rparr>\<rparr>\<rparr>"
proof -
  let ?p = "\<lparr>main_app = app example_framework_routes example_health_router,
         config = \<lparr>settings = \<lparr>app_name = ''Shop'', debug = True\<rparr>\<rparr>\<rparr>"
  have "req_method example_request = ''GET''" and "req_path example_request = ''/''"
    by (simp_all add: example_request_def)
  from root_no_side_effects [OF this example_not_served, of ?p example_ext]
  show ?thesis
    by simp
qed

text \<open>
  C9. The title of the application object is the default of the field \<open>app_name\<close>: the
  record constructed in an empty environment carries the title as its \<open>app_name\<close>. The
  bootstrap takes no settings: \<open>app\<close> has no such argument.
\<close>

theorem app_title_is_default_app_name:
  "title (app framework_routes health_router) = default_app_name
 \<and> Settings_init to_bool Map.empty \<lparr>env_vars = Map.empty, env_files = Map.empty\<rparr> =
     Inr \<lparr>app_name = title (app framework_routes health_router), debug = False\<rparr>"
  by (simp add: app_def app_get_def include_router_def FastAPI_init_def default_app_name_def
      Settings_init_env env_sourced_def field_debug_env default_debug_def)

theorem app_title_is_default_app_name_witness:
  "title (app example_framework_routes example_health_router) = ''My FastAPI App''
 \<and> Settings_init example_to_bool Map.empty \<lparr>env_vars = Map.empty, env_files = Map.empty\<rparr> =
     Inr \<lparr>app_name = ''My FastAPI App'', debug = False\<rparr>"
  using app_title_is_default_app_name [of example_framework_routes example_health_router
      example_to_bool]
  by (simp add: default_app_name_def)

end
